theory Spec2Isabelle
  imports Main "HOL-Library.Word" "HOL-Library.Sublist" "HOL-Library.AList"
begin

unbundle bit_operations_syntax

section \<open>Go error values\<close>

text \<open>
  The \<^verbatim>\<open>error\<close> values that occur in the program: the leaf errors made by
  \<^verbatim>\<open>errors.New\<close> and by \<^verbatim>\<open>fmt.Errorf\<close> without a \<^verbatim>\<open>%w\<close> verb, the two wrapping
  shapes \<^verbatim>\<open>fmt.Errorf\<close> builds (one wrapped error, several wrapped errors), and the SDK's
  \<^verbatim>\<open>*RPCError\<close>. A nil error is \<open>None\<close> of \<open>goerror option\<close>. All these values are
  comparable in Go; \<^verbatim>\<open>==\<close> is HOL equality here, so a value stands for one pointer and
  two pointers to equal contents are not told apart. Error types with \<^verbatim>\<open>Is\<close> or
  \<^verbatim>\<open>Unwrap\<close> methods of their own do not occur in these sources and are not modelled.
\<close>

record RPCError =
  Code :: int
  Message :: string

datatype goerror =
    ErrorString string
  | WrapError string goerror
  | WrapErrors string "goerror list"
  | RPCErrorPtr RPCError

text \<open>Decimal rendering of an integer, as \<^verbatim>\<open>%d\<close> prints it.\<close>

fun digits :: "nat \<Rightarrow> string" where
  "digits n = (if n < 10 then [char_of (48 + n)] else digits (n div 10) @ [char_of (48 + n mod 10)])"

definition itoa :: "int \<Rightarrow> string" where
  "itoa i = (if i < 0 then CHR ''-'' # digits (nat (- i)) else digits (nat i))"

text \<open>The \<^verbatim>\<open>Error()\<close> method; for \<^verbatim>\<open>*RPCError\<close> it is the SDK's own.\<close>

fun error_string :: "goerror \<Rightarrow> string" where
  "error_string (ErrorString s) = s"
| "error_string (WrapError s e) = s"
| "error_string (WrapErrors s es) = s"
| "error_string (RPCErrorPtr e) = ''matchlock RPC error ['' @ itoa (Code e) @ '']: '' @ Message e"



text \<open>
  \<^verbatim>\<open>fmt.Errorf\<close>, for the verbs the program uses: \<^verbatim>\<open>%w\<close>, \<^verbatim>\<open>%v\<close>, \<^verbatim>\<open>%s\<close>, \<^verbatim>\<open>%q\<close>,
  \<^verbatim>\<open>%d\<close> and \<^verbatim>\<open>%%\<close>. Flags, widths and argument indexes are not modelled. An operand
  of \<^verbatim>\<open>%w\<close> that is an error is printed as with \<^verbatim>\<open>%v\<close> and recorded as wrapped; any
  other operand of \<^verbatim>\<open>%w\<close> is a bad verb and is not wrapped.
\<close>

datatype any = AnyError goerror | AnyString string | AnyInt int | AnyNil

fun printArg :: "char \<Rightarrow> any \<Rightarrow> string" where
  "printArg verb (AnyError e) = error_string e"
| "printArg verb (AnyString s) = (if verb = CHR ''q'' then [CHR 0x22] @ s @ [CHR 0x22] else s)"
| "printArg verb (AnyInt i) = itoa i"
| "printArg verb AnyNil = (if verb = CHR ''v'' then ''<nil>'' else ''%!'' @ [verb] @ ''(<nil>)'')"

fun isError :: "any \<Rightarrow> bool" where
  "isError (AnyError e) = True"
| "isError a = False"

fun wrapped_of :: "any \<Rightarrow> goerror list" where
  "wrapped_of (AnyError e) = [e]"
| "wrapped_of a = []"

fun doPrintf :: "string \<Rightarrow> any list \<Rightarrow> string \<times> goerror list" where
  "doPrintf [] a = ([], [])"
| "doPrintf [c] a = (if c = CHR ''%'' then (''%!(NOVERB)'', []) else ([c], []))"
| "doPrintf (c # verb # rest) a =
     (if c \<noteq> CHR ''%'' then (let (s, w) = doPrintf (verb # rest) a in (c # s, w))
      else if verb = CHR ''%'' then (let (s, w) = doPrintf rest a in (CHR ''%'' # s, w))
      else (case a of
              [] \<Rightarrow> (let (s, w) = doPrintf rest [] in (''%!'' @ [verb] @ ''(MISSING)'' @ s, w))
            | arg # a' \<Rightarrow>
                (let (s, w) = doPrintf rest a' in
                 if verb = CHR ''w'' then
                   (if isError arg then (printArg CHR ''v'' arg @ s, wrapped_of arg @ w)
                    else (''%!w('' @ printArg CHR ''v'' arg @ '')'' @ s, w))
                 else (printArg verb arg @ s, w))))"

definition Errorf :: "string \<Rightarrow> any list \<Rightarrow> goerror" where
  "Errorf format a =
     (case doPrintf format a of
        (s, []) \<Rightarrow> ErrorString s
      | (s, [e]) \<Rightarrow> WrapError s e
      | (s, es) \<Rightarrow> WrapErrors s es)"

section \<open>internal/errx\<close>



section \<open>pkg/sdk: JSON-RPC types, error codes and the client's request loop\<close>

record 'p request =
  req_JSONRPC :: string
  req_Method :: string
  req_Params :: 'p
  req_ID :: "64 word"

record rpcError =
  rpc_code :: int
  rpc_message :: string

text \<open>\<^verbatim>\<open>Result\<close> is a \<^verbatim>\<open>json.RawMessage\<close>; \<^verbatim>\<open>Error\<close> and \<^verbatim>\<open>ID\<close> are pointers, nil is \<open>None\<close>.\<close>

record response =
  resp_JSONRPC :: string
  resp_Result :: string
  resp_Error :: "rpcError option"
  resp_ID :: "64 word option"

definition ErrCodeParse :: int where "ErrCodeParse = -32700"
definition ErrCodeInvalidRequest :: int where "ErrCodeInvalidRequest = -32600"
definition ErrCodeMethodNotFound :: int where "ErrCodeMethodNotFound = -32601"
definition ErrCodeInvalidParams :: int where "ErrCodeInvalidParams = -32602"
definition ErrCodeInternal :: int where "ErrCodeInternal = -32603"
definition ErrCodeVMFailed :: int where "ErrCodeVMFailed = -32000"
definition ErrCodeExecFailed :: int where "ErrCodeExecFailed = -32001"
definition ErrCodeFileFailed :: int where "ErrCodeFileFailed = -32002"

definition IsVMError :: "RPCError \<Rightarrow> bool" where
  "IsVMError e = (Code e = ErrCodeVMFailed)"

definition IsExecError :: "RPCError \<Rightarrow> bool" where
  "IsExecError e = (Code e = ErrCodeExecFailed)"

definition IsFileError :: "RPCError \<Rightarrow> bool" where
  "IsFileError e = (Code e = ErrCodeFileFailed)"

text \<open>
  One line read from the child's stdout, given by what \<^verbatim>\<open>json.Unmarshal(line, &resp)\<close>
  makes of it: an error (the line is not JSON, or a field has the wrong JSON type, for
  instance an \<^verbatim>\<open>id\<close> that is a string, negative or fractional, since \<^verbatim>\<open>ID\<close> is a
  \<^verbatim>\<open>*uint64\<close>), or the decoded \<^verbatim>\<open>response\<close>.
\<close>

datatype line = Undecodable goerror | Decoded response

text \<open>
  The client: \<open>stdin\<close> holds the lines written to the child so far and \<open>stdin_err\<close> the
  error of the next write, if it fails; \<open>stdout\<close> holds the lines still to be read, and
  \<open>stdout_err\<close> is what \<^verbatim>\<open>ReadBytes\<close> returns once they are used up (\<^verbatim>\<open>io.EOF\<close>).
\<close>

record Client =
  closed :: bool
  requestID :: "64 word"
  stdin :: "string list"
  stdin_err :: "goerror option"
  stdout :: "line list"
  stdout_err :: goerror

text \<open>The \<^verbatim>\<open>for\<close> loop of \<^verbatim>\<open>sendRequest\<close>; it returns the lines left unread as well.\<close>

fun readResponse :: "line list \<Rightarrow> goerror \<Rightarrow> 64 word \<Rightarrow> (goerror + string) \<times> line list" where
  "readResponse [] eof want = (Inl (Errorf ''failed to read response: %w'' [AnyError eof]), [])"
| "readResponse (l # ls) eof want =
     (case l of
        Undecodable e \<Rightarrow> (Inl (Errorf ''failed to unmarshal response: %w'' [AnyError e]), ls)
      | Decoded resp \<Rightarrow>
          (case resp_ID resp of
             None \<Rightarrow> readResponse ls eof want
           | Some rid \<Rightarrow>
               if rid \<noteq> want then readResponse ls eof want
               else (case resp_Error resp of
                       Some e \<Rightarrow> (Inl (RPCErrorPtr \<lparr>Code = rpc_code e, Message = rpc_message e\<rparr>), ls)
                     | None \<Rightarrow> (Inr (resp_Result resp), ls))))"

text \<open>
  \<^verbatim>\<open>sendRequest\<close>. \<open>marshal\<close> is \<^verbatim>\<open>json.Marshal\<close> on the request (it fails on parameters
  that have no JSON form).
\<close>

definition sendRequest ::
  "('p request \<Rightarrow> goerror + string) \<Rightarrow> Client \<Rightarrow> string \<Rightarrow> 'p \<Rightarrow> (goerror + string) \<times> Client" where
  "sendRequest marshal c meth params =
     (if closed c then (Inl (Errorf ''client is closed'' []), c)
      else
        let newid = requestID c + 1;
            c1 = c\<lparr>requestID := newid\<rparr>;
            req = \<lparr>req_JSONRPC = ''2.0'', req_Method = meth, req_Params = params, req_ID = newid\<rparr>
        in case marshal req of
             Inl e \<Rightarrow> (Inl (Errorf ''failed to marshal request: %w'' [AnyError e]), c1)
           | Inr data \<Rightarrow>
               (case stdin_err c1 of
                  Some e \<Rightarrow> (Inl (Errorf ''failed to write request: %w'' [AnyError e]), c1)
                | None \<Rightarrow>
                    let c2 = c1\<lparr>stdin := stdin c1 @ [data]\<rparr>;
                        (res, rest) = readResponse (stdout c2) (stdout_err c2) newid
                    in (res, c2\<lparr>stdout := rest\<rparr>)))"

section \<open>cmd/matchlock: the command line\<close>

subsection \<open>Values of the packages the commands call\<close>

text \<open>
  Modelled from the spec: the type \<^verbatim>\<open>api.Secret\<close> is declared outside the sources
  verified here; the spec gives it a value, a placeholder and a host set.
\<close>

record Secret =
  Value :: string
  Placeholder :: string
  Hosts :: "string list"

text \<open>
  The configuration \<^verbatim>\<open>runRun\<close> builds, field by field as the composite literals name
  them. Go maps are association lists (an assignment \<^verbatim>\<open>m[k] = v\<close> is \<open>AList.update\<close>).
\<close>

record MountConfig =
  Type :: string
  HostPath :: string
  Readonly :: bool

record VFSConfig =
  Workspace :: string
  Mounts :: "(string \<times> MountConfig) list"

record Resources =
  CPUs :: int
  MemoryMB :: int
  DiskSizeMB :: int
  TimeoutSeconds :: int

record NetworkConfig =
  AllowedHosts :: "string list"
  BlockPrivateIPs :: bool
  Secrets :: "(string \<times> Secret) list"

record Config =
  cfg_Image :: string
  Privileged :: bool
  Resources :: Resources
  Network :: NetworkConfig
  VFS :: VFSConfig

record Options =
  opt_RootfsPath :: string

record ExecOptions =
  WorkingDir :: string

record ExecResult =
  res_Stdout :: string
  res_Stderr :: string
  ExitCode :: int

record BuildResult =
  RootfsPath :: string
  Digest :: string
  Size :: int
  Cached :: bool

record VMState =
  ID :: string
  Status :: string
  vm_Image :: string
  PID :: int

text \<open>Why a context is done: its deadline passed, or it was cancelled (a signal).\<close>

datatype ctx_cause = DeadlineExceeded | Canceled

text \<open>
  What a command does to the outside, in order: writes to the two output streams (the
  bytes written), and the calls into the sandbox, the exec relay and the terminal.
\<close>

datatype event =
    Stdout string
  | Stderr string
  | Call_Build bool string
  | Call_New Config Options
  | Call_Start
  | Call_Close
  | Call_RelayStart string
  | Call_RelayStop
  | Call_Exec string "ExecOptions option"
  | Call_ExecInteractive string ExecOptions "16 word" "16 word"
  | Wait_Done ctx_cause
  | Term_MakeRaw
  | Term_Restore
  | Call_ExecViaRelay string string string
  | Call_ExecInteractiveViaRelay string string string "16 word" "16 word"

text \<open>
  How a \<^verbatim>\<open>RunE\<close> function ends: \<^verbatim>\<open>os.Exit(n)\<close>, a return of an error (nil is \<open>None\<close>),
  or a run-time panic.
\<close>

datatype outcome = Exit int | Return "goerror option" | Panic string

text \<open>
  The outcomes of the calls into packages outside the sources verified here
  (\<^verbatim>\<open>pkg/api\<close>, \<^verbatim>\<open>pkg/image\<close>, \<^verbatim>\<open>pkg/sandbox\<close>, \<^verbatim>\<open>pkg/state\<close>, \<^verbatim>\<open>x/term\<close>, \<^verbatim>\<open>os\<close>), each as a
  function of the call's arguments. A sandbox is given by its ID. \<open>ctx_Done\<close> is the
  cause for which the command's context is done when the command waits for it.
  \<open>format_MB\<close> renders the image size as \<^verbatim>\<open>%.1f\<close> of megabytes.
\<close>

record world =
  ShellQuoteArgs :: "string list \<Rightarrow> string"
  Build :: "bool \<Rightarrow> string \<Rightarrow> goerror + BuildResult"
  format_MB :: "int \<Rightarrow> string"
  ParseVolumeMount :: "string \<Rightarrow> string \<Rightarrow> goerror + (string \<times> string \<times> bool)"
  ParseSecret :: "string \<Rightarrow> goerror + (string \<times> Secret)"
  sandbox_New :: "Config \<Rightarrow> Options \<Rightarrow> goerror + string"
  sb_Start :: "goerror option"
  relay_Start :: "string \<Rightarrow> goerror option"
  ExecSocketPath :: "string \<Rightarrow> string"
  sb_Exec :: "string \<Rightarrow> ExecOptions option \<Rightarrow> goerror + ExecResult"
  ctx_Done :: ctx_cause
  IsTerminal :: bool
  GetSize :: "goerror + (int \<times> int)"
  MakeRaw :: "goerror option"
  InteractiveMachine :: bool
  PrepareExecEnv :: ExecOptions
  ExecInteractive :: "string \<Rightarrow> ExecOptions \<Rightarrow> 16 word \<Rightarrow> 16 word \<Rightarrow> goerror + int"
  mgr_Get :: "string \<Rightarrow> goerror + VMState"
  os_Stat :: "string \<Rightarrow> goerror option"
  ExecViaRelay :: "string \<Rightarrow> string \<Rightarrow> string \<Rightarrow> goerror + ExecResult"
  ExecInteractiveViaRelay ::
    "string \<Rightarrow> string \<Rightarrow> string \<Rightarrow> 16 word \<Rightarrow> 16 word \<Rightarrow> goerror + int"

text \<open>The flags of \<^verbatim>\<open>run\<close> and of \<^verbatim>\<open>exec\<close>, as \<^verbatim>\<open>cmd.Flags()\<close> returns them.\<close>

record run_flags =
  f_image :: string
  f_cpus :: int
  f_memory :: int
  f_timeout :: int
  f_timeout_changed :: bool
  f_tty :: bool
  f_interactive :: bool
  f_workspace :: string
  f_allow_host :: "string list"
  f_volume :: "string list"
  f_secret :: "string list"
  f_rm :: bool
  f_workdir :: string
  f_privileged :: bool
  f_pull :: bool
  f_disk_size :: int

record exec_flags =
  x_tty :: bool
  x_interactive :: bool
  x_workdir :: string

definition nl :: string where
  "nl = [CHR 0x0A]"

subsection \<open>main\<close>

text \<open>
  \<^verbatim>\<open>main\<close>, applied to what the selected command's \<^verbatim>\<open>RunE\<close> did: the events and the
  process's exit code. The root command silences cobra's own error and usage output, so
  the only line printed for a returned error is the one \<^verbatim>\<open>main\<close> prints. A panic ends a Go
  program with exit code 2.
\<close>

fun main :: "event list \<times> outcome \<Rightarrow> event list \<times> int" where
  "main (t, Exit n) = (t, n)"
| "main (t, Return None) = (t, 0)"
| "main (t, Return (Some err)) = (t @ [Stderr (error_string err @ nl)], 1)"
| "main (t, Panic s) = (t @ [Stderr s], 2)"

subsection \<open>run\<close>

text \<open>The two parsing loops of \<^verbatim>\<open>runRun\<close>, over \<^verbatim>\<open>volumes\<close> and over \<^verbatim>\<open>secrets\<close>.\<close>

fun parseVolumes ::
  "world \<Rightarrow> string \<Rightarrow> string list \<Rightarrow> (string \<times> MountConfig) list
   \<Rightarrow> goerror + (string \<times> MountConfig) list" where
  "parseVolumes w workspace [] mounts = Inr mounts"
| "parseVolumes w workspace (vol # vols) mounts =
     (case ParseVolumeMount w vol workspace of
        Inl err \<Rightarrow> Inl (Errorf ''invalid volume mount %q: %w'' [AnyString vol, AnyError err])
      | Inr (hostPath, guestPath, readonly) \<Rightarrow>
          parseVolumes w workspace vols
            (AList.update guestPath
               \<lparr>Type = ''real_fs'', HostPath = hostPath, Readonly = readonly\<rparr> mounts))"

fun parseSecrets ::
  "world \<Rightarrow> string list \<Rightarrow> (string \<times> Secret) list \<Rightarrow> goerror + (string \<times> Secret) list" where
  "parseSecrets w [] parsedSecrets = Inr parsedSecrets"
| "parseSecrets w (s # ss) parsedSecrets =
     (case ParseSecret w s of
        Inl err \<Rightarrow> Inl (Errorf ''invalid secret %q: %w'' [AnyString s, AnyError err])
      | Inr (name, secret) \<Rightarrow> parseSecrets w ss (AList.update name secret parsedSecrets))"

text \<open>
  \<^verbatim>\<open>runInteractive\<close>: the events and the exit code it returns. The deferred
  \<^verbatim>\<open>term.Restore\<close> runs on every return after raw mode was set.
\<close>

definition runInteractive :: "world \<Rightarrow> string \<Rightarrow> string \<Rightarrow> event list \<times> int" where
  "runInteractive w command workdir =
     (if \<not> IsTerminal w then ([Stderr (''Error: -it requires a TTY'' @ nl)], 1)
      else
        let (rows, cols) = (case GetSize w of Inl err \<Rightarrow> (24, 80) | Inr (c, r) \<Rightarrow> (r, c)) in
        case MakeRaw w of
          Some err \<Rightarrow>
            ([Term_MakeRaw, Stderr (''Error setting raw mode: '' @ error_string err @ nl)], 1)
        | None \<Rightarrow>
            if \<not> InteractiveMachine w then
              ([Term_MakeRaw,
                Stderr (''Error: interactive mode not supported on this backend'' @ nl),
                Term_Restore], 1)
            else
              let opts0 = PrepareExecEnv w;
                  opts = (if workdir \<noteq> [] then opts0\<lparr>WorkingDir := workdir\<rparr> else opts0);
                  call = Call_ExecInteractive command opts (word_of_int rows) (word_of_int cols)
              in case ExecInteractive w command opts (word_of_int rows) (word_of_int cols) of
                   Inl err \<Rightarrow>
                     ([Term_MakeRaw, call, Term_Restore,
                       Stderr (nl @ ''Error: '' @ error_string err @ nl), Term_Restore], 1)
                 | Inr exitCode \<Rightarrow> ([Term_MakeRaw, call, Term_Restore], exitCode))"

text \<open>
  \<^verbatim>\<open>runRun\<close> from the start of the exec relay on, that is once \<^verbatim>\<open>sb.Start\<close> has
  succeeded; \<open>t\<close> holds the events so far and \<open>sb\<close> the sandbox's ID. The deferred
  \<^verbatim>\<open>execRelay.Stop\<close> runs when the function returns, not when it calls \<^verbatim>\<open>os.Exit\<close>.
\<close>

definition runRun_started ::
  "world \<Rightarrow> run_flags \<Rightarrow> string list \<Rightarrow> string \<Rightarrow> string \<Rightarrow> event list \<Rightarrow> event list \<times> outcome" where
  "runRun_started w fl args command sb t =
     (let rm = f_rm fl;
          workdir = f_workdir fl;
          interactiveMode = (f_tty fl \<and> f_interactive fl);
          execSocketPath = ExecSocketPath w sb;
          t1 = t @ [Call_RelayStart execSocketPath] @
               (case relay_Start w execSocketPath of
                  Some err \<Rightarrow> [Stderr (''Warning: failed to start exec relay: '' @ error_string err @ nl)]
                | None \<Rightarrow> []);
          t2 = t1 @
               (if \<not> rm then
                  [Stderr (''Sandbox '' @ sb @ '' is running'' @ nl),
                   Stderr (''  Connect: matchlock exec '' @ sb @ '' -it bash'' @ nl),
                   Stderr (''  Stop:    matchlock kill '' @ sb @ nl)]
                else [])
      in
      if interactiveMode then
        (let (ti, exitCode) = runInteractive w command workdir
         in (t2 @ ti @ (if rm then [Call_Close] else []), Exit exitCode))
      else
        let step =
          (if length args > 0 then
             (let opts = (if workdir \<noteq> [] then Some \<lparr>WorkingDir = workdir\<rparr> else None);
                  t3 = t2 @ [Call_Exec command opts]
              in case sb_Exec w command opts of
                   Inl err \<Rightarrow>
                     Inl (t3 @ (if rm then [Call_Close] else []) @ [Call_RelayStop],
                          Return (Some (Errorf ''executing command: %w'' [AnyError err])))
                 | Inr result \<Rightarrow>
                     (let t4 = t3 @ [Stdout (res_Stdout result), Stderr (res_Stderr result)]
                      in if rm then Inl (t4 @ [Call_Close], Exit (ExitCode result))
                         else Inr t4))
           else Inr t2)
        in case step of
             Inl ended \<Rightarrow> ended
           | Inr t5 \<Rightarrow>
               (t5 @ (if \<not> rm then [Wait_Done (ctx_Done w), Call_Close] else []) @ [Call_RelayStop],
                Return None))"

text \<open>
  \<^verbatim>\<open>runRun\<close> up to \<^verbatim>\<open>sb.Start\<close>. The context, which carries the timeout as its deadline
  when \<^verbatim>\<open>--timeout\<close> was given and is cancelled by a signal, enters only through the
  outcomes of the calls that take it and through \<open>ctx_Done\<close>.
\<close>

definition runRun :: "world \<Rightarrow> run_flags \<Rightarrow> string list \<Rightarrow> event list \<times> outcome" where
  "runRun w fl args =
     (let imageName = f_image fl;
          workspace = f_workspace fl;
          interactiveMode = (f_tty fl \<and> f_interactive fl);
          command = ShellQuoteArgs w args
      in
      if f_rm fl \<and> length args = 0 \<and> \<not> interactiveMode then
        ([], Return (Some (Errorf ''command required (or use --rm=false to start without a command)'' [])))
      else
        case Build w (f_pull fl) imageName of
          Inl err \<Rightarrow>
            ([Call_Build (f_pull fl) imageName],
             Return (Some (Errorf ''building rootfs: %w'' [AnyError err])))
        | Inr buildResult \<Rightarrow>
            let t1 = [Call_Build (f_pull fl) imageName,
                      Stdout (if Cached buildResult then ''Using cached image '' @ imageName @ nl
                              else ''Built rootfs from '' @ imageName @ '' ('' @
                                   format_MB w (Size buildResult) @ '' MB)'' @ nl)];
                sandboxOpts = \<lparr>opt_RootfsPath = RootfsPath buildResult\<rparr>
            in
            case parseVolumes w workspace (f_volume fl) [] of
              Inl err \<Rightarrow> (t1, Return (Some err))
            | Inr mounts \<Rightarrow>
                (case parseSecrets w (f_secret fl) [] of
                   Inl err \<Rightarrow> (t1, Return (Some err))
                 | Inr parsedSecrets \<Rightarrow>
                     let config =
                           \<lparr>cfg_Image = imageName,
                            Privileged = f_privileged fl,
                            Resources = \<lparr>CPUs = f_cpus fl, MemoryMB = f_memory fl,
                                         DiskSizeMB = f_disk_size fl, TimeoutSeconds = f_timeout fl\<rparr>,
                            Network = \<lparr>AllowedHosts = f_allow_host fl, BlockPrivateIPs = True,
                                       Secrets = parsedSecrets\<rparr>,
                            VFS = \<lparr>Workspace = workspace, Mounts = mounts\<rparr>\<rparr>;
                         t2 = t1 @ [Call_New config sandboxOpts]
                     in
                     case sandbox_New w config sandboxOpts of
                       Inl err \<Rightarrow> (t2, Return (Some (Errorf ''creating sandbox: %w'' [AnyError err])))
                     | Inr sb \<Rightarrow>
                         (case sb_Start w of
                            Some err \<Rightarrow>
                              (t2 @ [Call_Start, Call_Close],
                               Return (Some (Errorf ''starting sandbox: %w'' [AnyError err])))
                          | None \<Rightarrow> runRun_started w fl args command sb (t2 @ [Call_Start]))))"

subsection \<open>exec\<close>

definition runExecInteractive ::
  "world \<Rightarrow> string \<Rightarrow> string \<Rightarrow> string \<Rightarrow> event list \<times> outcome" where
  "runExecInteractive w execSocketPath command workdir =
     (if \<not> IsTerminal w then ([], Return (Some (Errorf ''-it requires a TTY'' [])))
      else
        let (rows, cols) = (case GetSize w of Inl err \<Rightarrow> (24, 80) | Inr (c, r) \<Rightarrow> (r, c)) in
        case MakeRaw w of
          Some err \<Rightarrow> ([Term_MakeRaw], Return (Some (Errorf ''setting raw mode: %w'' [AnyError err])))
        | None \<Rightarrow>
            let call = Call_ExecInteractiveViaRelay execSocketPath command workdir
                         (word_of_int rows) (word_of_int cols)
            in case ExecInteractiveViaRelay w execSocketPath command workdir
                      (word_of_int rows) (word_of_int cols) of
                 Inl err \<Rightarrow>
                   ([Term_MakeRaw, call, Term_Restore, Term_Restore],
                    Return (Some (Errorf ''interactive exec failed: %w'' [AnyError err])))
               | Inr exitCode \<Rightarrow> ([Term_MakeRaw, call, Term_Restore], Exit exitCode))"

text \<open>
  \<^verbatim>\<open>runExec\<close>. Indexing \<^verbatim>\<open>args[0]\<close> panics on an empty argument list; the command's
  \<^verbatim>\<open>cobra.MinimumNArgs(1)\<close> keeps that from happening (\<open>execCmd\<close> below).
\<close>

definition runExec :: "world \<Rightarrow> exec_flags \<Rightarrow> string list \<Rightarrow> event list \<times> outcome" where
  "runExec w fl args =
     (case args of
        [] \<Rightarrow> ([], Panic ''index out of range [0] with length 0'')
      | vmID # cmdArgs \<Rightarrow>
          let workdir = x_workdir fl;
              interactiveMode = (x_tty fl \<and> x_interactive fl)
          in
          if length cmdArgs = 0 \<and> \<not> interactiveMode then
            ([], Return (Some (Errorf ''command required (or use -it for interactive mode)'' [])))
          else
            case mgr_Get w vmID of
              Inl err \<Rightarrow>
                ([], Return (Some (Errorf ''VM %s not found: %w'' [AnyString vmID, AnyError err])))
            | Inr vmState \<Rightarrow>
                if Status vmState \<noteq> ''running'' then
                  ([], Return (Some (Errorf ''VM %s is not running (status: %s)''
                                       [AnyString vmID, AnyString (Status vmState)])))
                else
                  let execSocketPath = ExecSocketPath w vmID in
                  case os_Stat w execSocketPath of
                    Some err \<Rightarrow>
                      ([], Return (Some (Errorf ''exec socket not found for %s (was it started with --rm=false?)''
                                           [AnyString vmID])))
                  | None \<Rightarrow>
                      let command = ShellQuoteArgs w cmdArgs in
                      if interactiveMode then runExecInteractive w execSocketPath command workdir
                      else
                        case ExecViaRelay w execSocketPath command workdir of
                          Inl err \<Rightarrow>
                            ([Call_ExecViaRelay execSocketPath command workdir],
                             Return (Some (Errorf ''exec failed: %w'' [AnyError err])))
                        | Inr result \<Rightarrow>
                            ([Call_ExecViaRelay execSocketPath command workdir,
                              Stdout (res_Stdout result), Stderr (res_Stderr result)],
                             Exit (ExitCode result)))"

text \<open>The command \<^verbatim>\<open>exec\<close>: cobra checks \<^verbatim>\<open>MinimumNArgs(1)\<close>, then runs \<^verbatim>\<open>runExec\<close>.\<close>

definition execCmd :: "world \<Rightarrow> exec_flags \<Rightarrow> string list \<Rightarrow> event list \<times> outcome" where
  "execCmd w fl args =
     (if length args < 1 then
        ([], Return (Some (Errorf ''requires at least %d arg(s), only received %d''
                             [AnyInt 1, AnyInt (int (length args))])))
      else runExec w fl args)"

text \<open>The events that send a request into a sandbox through its exec relay.\<close>

fun relay_socket :: "event \<Rightarrow> string option" where
  "relay_socket (Call_ExecViaRelay p c d) = Some p"
| "relay_socket (Call_ExecInteractiveViaRelay p c d rows cols) = Some p"
| "relay_socket e = None"


subsection \<open>A concrete run\<close>

text \<open>
  One outside world, for evaluating the commands: the image is cached, the sandbox
  \<open>vm-1a2b3c4d\<close> starts and is recorded as running with its exec socket in place, the guest
  command exits with 3 under \<^verbatim>\<open>run\<close> and with 7 under \<^verbatim>\<open>exec\<close>, a second sandbox
  \<open>vm-0000dead\<close> is recorded as stopped, and the context ends by its deadline.
\<close>

definition world0 :: world where
  "world0 =
     \<lparr>ShellQuoteArgs = (\<lambda>args. concat (map (\<lambda>a. a @ '' '') args)),
      Build = (\<lambda>pull img. Inr \<lparr>RootfsPath = ''/cache/rootfs.ext4'', Digest = ''sha256:0'',
                                 Size = 0, Cached = True\<rparr>),
      format_MB = (\<lambda>n. ''0.0''),
      ParseVolumeMount = (\<lambda>vol ws. Inl (ErrorString ''expected format host:guest[:ro]'')),
      ParseSecret = (\<lambda>s. Inl (ErrorString ''missing @hosts'')),
      sandbox_New = (\<lambda>c opts. Inr ''vm-1a2b3c4d''),
      sb_Start = None,
      relay_Start = (\<lambda>p. None),
      ExecSocketPath = (\<lambda>vm. ''/state/'' @ vm @ ''/exec.sock''),
      sb_Exec = (\<lambda>cmd opts. Inr \<lparr>res_Stdout = ''hi'', res_Stderr = [], ExitCode = 3\<rparr>),
      ctx_Done = DeadlineExceeded,
      IsTerminal = False,
      GetSize = Inl (ErrorString ''not a terminal''),
      MakeRaw = Some (ErrorString ''not a terminal''),
      InteractiveMachine = True,
      PrepareExecEnv = \<lparr>WorkingDir = ''/workspace''\<rparr>,
      ExecInteractive = (\<lambda>cmd opts rows cols. Inr 0),
      mgr_Get = (\<lambda>vm. if vm = ''vm-1a2b3c4d''
                        then Inr \<lparr>ID = vm, Status = ''running'', vm_Image = ''alpine:latest'', PID = 4242\<rparr>
                        else if vm = ''vm-0000dead''
                        then Inr \<lparr>ID = vm, Status = ''stopped'', vm_Image = ''alpine:latest'', PID = 0\<rparr>
                        else Inl (ErrorString ''no such VM'')),
      os_Stat = (\<lambda>p. if p = ''/state/vm-1a2b3c4d/exec.sock'' then None
                       else Some (ErrorString ''no such file or directory'')),
      ExecViaRelay = (\<lambda>p cmd dir. Inr \<lparr>res_Stdout = ''hi'', res_Stderr = [], ExitCode = 7\<rparr>),
      ExecInteractiveViaRelay = (\<lambda>p cmd dir rows cols. Inr 0)\<rparr>"

text \<open>\<^verbatim>\<open>run --image alpine:latest --timeout 2\<close>, every other flag at its default.\<close>

definition flags0 :: run_flags where
  "flags0 =
     \<lparr>f_image = ''alpine:latest'', f_cpus = 1, f_memory = 512, f_timeout = 2,
      f_timeout_changed = True, f_tty = False, f_interactive = False,
      f_workspace = ''/workspace'', f_allow_host = [], f_volume = [], f_secret = [],
      f_rm = True, f_workdir = [], f_privileged = False, f_pull = False, f_disk_size = 5120\<rparr>"

definition xflags0 :: exec_flags where
  "xflags0 = \<lparr>x_tty = False, x_interactive = False, x_workdir = []\<rparr>"

text \<open>The configuration \<^verbatim>\<open>runRun\<close> builds from \<open>flags0\<close>.\<close>

definition config0 :: Config where
  "config0 =
     \<lparr>cfg_Image = ''alpine:latest'', Privileged = False,
      Resources = \<lparr>CPUs = 1, MemoryMB = 512, DiskSizeMB = 5120, TimeoutSeconds = 2\<rparr>,
      Network = \<lparr>AllowedHosts = [], BlockPrivateIPs = True, Secrets = []\<rparr>,
      VFS = \<lparr>Workspace = ''/workspace'', Mounts = []\<rparr>\<rparr>"

subsection \<open>pkg/state and rm\<close>

text \<open>
  Modelled from the spec: the package \<^verbatim>\<open>pkg/state\<close> (the \<^verbatim>\<open>Manager\<close> with \<^verbatim>\<open>List\<close> and
  \<^verbatim>\<open>Remove\<close>) is outside the sources verified here; only its test file and its callers are inside.
  The spec gives every sandbox a state directory of its own, which holds \<^verbatim>\<open>status\<close>
  (text, one of the statuses), \<^verbatim>\<open>config.json\<close>, \<^verbatim>\<open>pid\<close> and \<^verbatim>\<open>exec.sock\<close>; the tests
  place it under the manager's base directory, named by the sandbox's ID. Of \<^verbatim>\<open>rm\<close> the
  spec says: on a nonexistent ID it fails with a message naming the ID; on a sandbox
  whose status is \<open>stopped\<close> it removes the state directory; on \<open>running\<close> it refuses
  with a non-destructive error. For the other statuses, on which the spec is silent,
  the model follows the caller \<^verbatim>\<open>rm --stopped\<close>, which asks \<^verbatim>\<open>Remove\<close> for every sandbox
  that is not running.
\<close>

record sandbox_dir =
  status_file :: string
  config_image :: string
  pid_file :: int
  exec_sock :: bool

text \<open>The base directory: the state directories in it, by name.\<close>

type_synonym base_dir = "(string \<times> sandbox_dir) list"

definition List_states :: "base_dir \<Rightarrow> VMState list" where
  "List_states dir =
     map (\<lambda>(vm, d). \<lparr>ID = vm, Status = status_file d, vm_Image = config_image d, PID = pid_file d\<rparr>) dir"

definition Remove :: "base_dir \<Rightarrow> string \<Rightarrow> base_dir \<times> goerror option" where
  "Remove dir vm =
     (case map_of dir vm of
        None \<Rightarrow> (dir, Some (Errorf ''VM %s not found'' [AnyString vm]))
      | Some d \<Rightarrow>
          if status_file d = ''running''
          then (dir, Some (Errorf ''VM %s is running, kill it first'' [AnyString vm]))
          else (AList.delete vm dir, None))"

text \<open>The loop of \<^verbatim>\<open>runRemove\<close> under \<^verbatim>\<open>--stopped\<close>, over the listed states.\<close>

fun remove_stopped :: "VMState list \<Rightarrow> base_dir \<Rightarrow> event list \<Rightarrow> base_dir \<times> event list" where
  "remove_stopped [] dir t = (dir, t)"
| "remove_stopped (s # ss) dir t =
     (if Status s \<noteq> ''running'' then
        (case Remove dir (ID s) of
           (dir', Some err) \<Rightarrow>
             remove_stopped ss dir'
               (t @ [Stderr (''Failed to remove '' @ ID s @ '': '' @ error_string err @ nl)])
         | (dir', None) \<Rightarrow> remove_stopped ss dir' (t @ [Stdout (''Removed '' @ ID s @ nl)]))
      else remove_stopped ss dir t)"

text \<open>\<^verbatim>\<open>runRemove\<close>: the base directory afterwards, the events and the outcome.\<close>

definition runRemove :: "base_dir \<Rightarrow> bool \<Rightarrow> string list \<Rightarrow> base_dir \<times> event list \<times> outcome" where
  "runRemove dir stopped args =
     (if stopped then
        (let (dir', t) = remove_stopped (List_states dir) dir [] in (dir', t, Return None))
      else
        case args of
          [] \<Rightarrow> (dir, [], Return (Some (Errorf ''VM ID required (or use --stopped)'' [])))
        | vm # rest \<Rightarrow>
            (case Remove dir vm of
               (dir', Some err) \<Rightarrow> (dir', [], Return (Some err))
             | (dir', None) \<Rightarrow> (dir', [Stdout (''Removed '' @ vm @ nl)], Return None)))"

text \<open>The base directory of the tests: one stopped and one running sandbox.\<close>

definition dir0 :: base_dir where
  "dir0 =
     [(''vm-test123'', \<lparr>status_file = ''stopped'', config_image = ''alpine:latest'', pid_file = 0,
                        exec_sock = False\<rparr>),
      (''vm-running1'', \<lparr>status_file = ''running'', config_image = ''alpine:latest'', pid_file = 4242,
                         exec_sock = True\<rparr>)]"

section \<open>pkg/image: extracting an image\<close>

subsection \<open>strings and path/filepath, on Unix\<close>

text \<open>\<^verbatim>\<open>strings.Contains\<close>.\<close>

fun Contains :: "string \<Rightarrow> string \<Rightarrow> bool" where
  "Contains [] substr = (substr = [])"
| "Contains (c # s) substr = (prefix substr (c # s) \<or> Contains s substr)"

text \<open>A path cut at every separator, and \<^verbatim>\<open>strings.Join\<close> with the separator.\<close>

fun split_path :: "string \<Rightarrow> string list" where
  "split_path [] = [[]]"
| "split_path (c # cs) =
     (if c = CHR ''/'' then [] # split_path cs
      else (case split_path cs of [] \<Rightarrow> [[c]] | x # xs \<Rightarrow> (c # x) # xs))"

fun join_path :: "string list \<Rightarrow> string" where
  "join_path [] = []"
| "join_path [x] = x"
| "join_path (x # y # ys) = x @ ''/'' @ join_path (y # ys)"

text \<open>
  \<^verbatim>\<open>filepath.Clean\<close>: empty and \<open>.\<close> elements are dropped; a \<open>..\<close> element removes the
  element before it, is dropped at the start of a rooted path and is kept at the start of
  a relative one; the result of an empty path, or of a relative path that cleans to
  nothing, is \<open>.\<close>. \<open>out\<close> is the list of the elements kept so far.
\<close>

definition clean_elem :: "bool \<Rightarrow> string list \<Rightarrow> string \<Rightarrow> string list" where
  "clean_elem rooted out e =
     (if e = [] \<or> e = ''.'' then out
      else if e = ''..'' then
        (if out \<noteq> [] \<and> last out \<noteq> ''..'' then butlast out
         else if rooted then out
         else out @ [''..''])
      else out @ [e])"

definition Clean :: "string \<Rightarrow> string" where
  "Clean path =
     (if path = [] then ''.''
      else
        let rooted = (hd path = CHR ''/'');
            out = foldl (clean_elem rooted) [] (split_path path)
        in if rooted then CHR ''/'' # join_path out
           else if out = [] then ''.''
           else join_path out)"

text \<open>\<^verbatim>\<open>filepath.Join\<close>: the elements from the first non-empty one on, joined and cleaned.\<close>

definition Join :: "string list \<Rightarrow> string" where
  "Join elem =
     (case dropWhile (\<lambda>e. e = []) elem of
        [] \<Rightarrow> []
      | es \<Rightarrow> Clean (join_path es))"

text \<open>\<^verbatim>\<open>filepath.Dir\<close>: the path up to its last separator, cleaned.\<close>

definition Dir :: "string \<Rightarrow> string" where
  "Dir path = Clean (rev (dropWhile (\<lambda>c. c \<noteq> CHR ''/'') (rev path)))"

subsection \<open>The tar stream and the file system operations\<close>

text \<open>The fields of \<^verbatim>\<open>tar.Header\<close> that \<^verbatim>\<open>extractImage\<close> reads, and the type flags it tests.\<close>

record Header =
  Typeflag :: char
  Name :: string
  Linkname :: string
  Mode :: "64 word"
  Uid :: int
  Gid :: int

definition TypeReg :: char where "TypeReg = CHR ''0''"
definition TypeLink :: char where "TypeLink = CHR ''1''"
definition TypeSymlink :: char where "TypeSymlink = CHR ''2''"
definition TypeDir :: char where "TypeDir = CHR ''5''"

record fileMeta =
  uid :: int
  gid :: int
  mode :: "32 word"

text \<open>
  The calls into \<^verbatim>\<open>os\<close> and \<^verbatim>\<open>io\<close>: \<open>OpenFile target perm\<close> creates or truncates,
  \<open>Copy target body\<close> writes the entry's bytes, \<open>Symlink linkname target\<close> and
  \<open>Link linkTarget target\<close> take the old name first, as \<^verbatim>\<open>os.Symlink\<close> and \<^verbatim>\<open>os.Link\<close> do.
\<close>

datatype fsop =
    MkdirAll string
  | OpenFile string "32 word"
  | Copy string string
  | RemoveFile string
  | Symlink string string
  | Link string string

text \<open>
  A sequence of calls for one entry, each with the format of the error \<^verbatim>\<open>extractImage\<close>
  returns when the call fails (\<open>None\<close>: the result of the call is ignored). \<open>fails\<close> gives
  the error of a call, if it fails. The result is the calls made, and the error returned.
\<close>

fun attempt ::
  "(fsop \<Rightarrow> goerror option) \<Rightarrow> string \<Rightarrow> (fsop \<times> string option) list \<Rightarrow> fsop list \<times> goerror option" where
  "attempt fails clean [] = ([], None)"
| "attempt fails clean ((call, fmt) # rest) =
     (case (fails call, fmt) of
        (Some err, Some f) \<Rightarrow> ([call], Some (Errorf f [AnyString clean, AnyError err]))
      | _ \<Rightarrow> (let (calls, r) = attempt fails clean rest in (call # calls, r)))"

text \<open>
  The body of the loop of \<^verbatim>\<open>extractImage\<close> for one entry: the calls it makes, and
  an error, or whether the entry's metadata is recorded (\<open>False\<close> for an entry that is
  skipped by \<^verbatim>\<open>continue\<close>). The permission mask \<^verbatim>\<open>0777\<close> is 511.
\<close>

definition extractEntry ::
  "(fsop \<Rightarrow> goerror option) \<Rightarrow> string \<Rightarrow> Header \<Rightarrow> string \<Rightarrow> fsop list \<times> (goerror + bool)" where
  "extractEntry fails destDir hdr body =
     (let clean = Clean (Name hdr) in
      if Contains clean ''..'' then ([], Inr False)
      else
        let target = Join [destDir, clean];
            calls =
              (if Typeflag hdr = TypeDir then
                 Some [(MkdirAll target, Some ''mkdir %s: %w'')]
               else if Typeflag hdr = TypeReg then
                 Some [(MkdirAll (Dir target), Some ''mkdir parent %s: %w''),
                       (OpenFile target (ucast (Mode hdr) AND 511), Some ''create %s: %w''),
                       (Copy target body, Some ''write %s: %w'')]
               else if Typeflag hdr = TypeSymlink then
                 Some [(MkdirAll (Dir target), Some ''mkdir parent %s: %w''),
                       (RemoveFile target, None),
                       (Symlink (Linkname hdr) target, Some ''symlink %s: %w'')]
               else if Typeflag hdr = TypeLink then
                 (let linkTarget = Join [destDir, Clean (Linkname hdr)] in
                  Some [(MkdirAll (Dir target), Some ''mkdir parent %s: %w''),
                        (RemoveFile target, None),
                        (Link linkTarget target, Some ''hardlink %s: %w'')])
               else None)
        in case calls of
             None \<Rightarrow> ([], Inr False)
           | Some cs \<Rightarrow>
               (case attempt fails clean cs of
                  (done, Some err) \<Rightarrow> (done, Inl err)
                | (done, None) \<Rightarrow> (done, Inr True)))"

text \<open>
  \<^verbatim>\<open>extractImage\<close> on the entries of the flattened image, each with its bytes;
  \<open>tail\<close> is the error that ends the stream (\<open>None\<close> for \<^verbatim>\<open>io.EOF\<close>). The result is the
  calls made, in order, and the error or the metadata map.
\<close>

fun extractEntries ::
  "(fsop \<Rightarrow> goerror option) \<Rightarrow> string \<Rightarrow> (Header \<times> string) list \<Rightarrow> goerror option
   \<Rightarrow> (string \<times> fileMeta) list \<Rightarrow> fsop list \<times> (goerror + (string \<times> fileMeta) list)" where
  "extractEntries fails destDir [] tail meta =
     (case tail of
        None \<Rightarrow> ([], Inr meta)
      | Some err \<Rightarrow> ([], Inl (Errorf ''read tar: %w'' [AnyError err])))"
| "extractEntries fails destDir ((hdr, body) # rest) tail meta =
     (case extractEntry fails destDir hdr body of
        (calls, Inl err) \<Rightarrow> (calls, Inl err)
      | (calls, Inr recorded) \<Rightarrow>
          (let meta' =
                 (if recorded then
                    AList.update (''/'' @ Clean (Name hdr))
                      \<lparr>uid = Uid hdr, gid = Gid hdr, mode = ucast (Mode hdr) AND 511\<rparr> meta
                  else meta);
               (calls', r) = extractEntries fails destDir rest tail meta'
           in (calls @ calls', r)))"

definition extractImage ::
  "(fsop \<Rightarrow> goerror option) \<Rightarrow> string \<Rightarrow> (Header \<times> string) list \<Rightarrow> goerror option
   \<Rightarrow> fsop list \<times> (goerror + (string \<times> fileMeta) list)" where
  "extractImage fails destDir entries tail = extractEntries fails destDir entries tail []"

text \<open>
  The paths a call names: the one it creates, removes or writes, and for a hard link
  also the existing file the new name is linked to.
\<close>

fun created_path :: "fsop \<Rightarrow> string" where
  "created_path (MkdirAll p) = p"
| "created_path (OpenFile p perm) = p"
| "created_path (Copy p body) = p"
| "created_path (RemoveFile p) = p"
| "created_path (Symlink old new) = new"
| "created_path (Link old new) = new"

fun link_source :: "fsop \<Rightarrow> string option" where
  "link_source (Link old new) = Some old"
| "link_source call = None"

text \<open>
  A cleaned path lies under a directory when it is the cleaned directory itself or
  continues it after a separator.
\<close>

definition lies_under :: "string \<Rightarrow> string \<Rightarrow> bool" where
  "lies_under dir p =
     (''..'' \<notin> set (split_path p)
      \<and> (p = Clean dir \<or> prefix (Clean dir @ ''/'') p \<or> (Clean dir = ''/'' \<and> prefix ''/'' p)))"

text \<open>
  Two notions for reasoning about cleaned paths: a plain element is a name (not empty,
  not \<open>.\<close>, not \<open>..\<close>, without separator), and \<open>kept path\<close> lists the elements
  \<^verbatim>\<open>Clean\<close> keeps of a rooted path.
\<close>

definition plain :: "string \<Rightarrow> bool" where
  "plain e = (e \<noteq> [] \<and> e \<noteq> ''.'' \<and> e \<noteq> ''..'' \<and> CHR ''/'' \<notin> set e)"

definition kept :: "string \<Rightarrow> string list" where
  "kept path = foldl (clean_elem True) [] (split_path path)"

section \<open>Properties of the SDK\<close>

text \<open>
  C6. The JSON-RPC error codes of the SDK are exactly: parse error -32700, invalid request
  -32600, method not found -32601, invalid params -32602, internal error -32603, VM failed
  -32000, exec failed -32001 and file failed -32002; they are pairwise different, and the
  three classifying methods of \<^verbatim>\<open>*RPCError\<close> test for the last three.
\<close>

theorem error_codes_exact:
  "[ErrCodeParse, ErrCodeInvalidRequest, ErrCodeMethodNotFound, ErrCodeInvalidParams,
    ErrCodeInternal, ErrCodeVMFailed, ErrCodeExecFailed, ErrCodeFileFailed]
   = [-32700, -32600, -32601, -32602, -32603, -32000, -32001, -32002]
   \<and> distinct [ErrCodeParse, ErrCodeInvalidRequest, ErrCodeMethodNotFound, ErrCodeInvalidParams,
    ErrCodeInternal, ErrCodeVMFailed, ErrCodeExecFailed, ErrCodeFileFailed]
   \<and> IsVMError e = (Code e = -32000)
   \<and> IsExecError e = (Code e = -32001)
   \<and> IsFileError e = (Code e = -32002)"
  by (simp add: ErrCodeParse_def ErrCodeInvalidRequest_def ErrCodeMethodNotFound_def
      ErrCodeInvalidParams_def ErrCodeInternal_def ErrCodeVMFailed_def ErrCodeExecFailed_def
      ErrCodeFileFailed_def IsVMError_def IsExecError_def IsFileError_def)

lemma readResponse_skip:
  "\<forall>l \<in> set pre. \<exists>r. l = Decoded r \<and> resp_ID r \<noteq> Some want \<Longrightarrow>
   readResponse (pre @ ls) eof want = readResponse ls eof want"
  by (induction pre) (auto split: option.splits)

text \<open>
  C7, as amended. Let the client be open, the request marshal and the write succeed, and
  let every line read before the first line whose ID equals the request's ID decode as a
  response (so each of them has no ID or a different ID). Then \<^verbatim>\<open>sendRequest\<close> skips those
  lines and returns the result of that first matching line or, if it carries an error
  object, an \<^verbatim>\<open>*RPCError\<close> with exactly its code and message; the lines after it stay
  unread, the request went out under the next request ID.
\<close>

theorem sendRequest_first_matching:
  assumes "\<not> closed c"
    and "marshal \<lparr>req_JSONRPC = ''2.0'', req_Method = meth, req_Params = params,
                   req_ID = requestID c + 1\<rparr> = Inr data"
    and "stdin_err c = None"
    and "stdout c = pre @ Decoded r # post"
    and "\<forall>l \<in> set pre. \<exists>r'. l = Decoded r' \<and> resp_ID r' \<noteq> Some (requestID c + 1)"
    and "resp_ID r = Some (requestID c + 1)"
  shows "fst (sendRequest marshal c meth params) =
           (case resp_Error r of
              None \<Rightarrow> Inr (resp_Result r)
            | Some e \<Rightarrow> Inl (RPCErrorPtr \<lparr>Code = rpc_code e, Message = rpc_message e\<rparr>))
         \<and> stdout (snd (sendRequest marshal c meth params)) = post
         \<and> stdin (snd (sendRequest marshal c meth params)) = stdin c @ [data]
         \<and> requestID (snd (sendRequest marshal c meth params)) = requestID c + 1"
proof -
  have skip: "readResponse (pre @ Decoded r # post) (stdout_err c) (requestID c + 1)
              = readResponse (Decoded r # post) (stdout_err c) (requestID c + 1)"
    using assms(5) by (rule readResponse_skip)
  show ?thesis
    using assms(1-4,6) skip
    by (simp add: sendRequest_def Let_def split: option.splits)
qed

theorem sendRequest_first_matching_witness:
  "fst (sendRequest (\<lambda>r. Inr ''{req}'')
          \<lparr>closed = False, requestID = 6, stdin = [], stdin_err = None,
            stdout = [Decoded \<lparr>resp_JSONRPC = ''2.0'', resp_Result = ''{note}'', resp_Error = None, resp_ID = None\<rparr>,
                      Decoded \<lparr>resp_JSONRPC = ''2.0'', resp_Result = ''{old}'', resp_Error = None, resp_ID = Some 6\<rparr>,
                      Decoded \<lparr>resp_JSONRPC = ''2.0'', resp_Result = [],
                               resp_Error = Some \<lparr>rpc_code = -32001, rpc_message = ''boom''\<rparr>, resp_ID = Some 7\<rparr>,
                      Decoded \<lparr>resp_JSONRPC = ''2.0'', resp_Result = ''{late}'', resp_Error = None, resp_ID = Some 7\<rparr>],
            stdout_err = ErrorString ''EOF''\<rparr> ''exec'' ())
   = Inl (RPCErrorPtr \<lparr>Code = -32001, Message = ''boom''\<rparr>)"
  using sendRequest_first_matching [where marshal = "\<lambda>r. Inr ''{req}''" and meth = "''exec''" and params = "()"
      and data = "''{req}''"
      and c = "\<lparr>closed = False, requestID = 6, stdin = [], stdin_err = None,
            stdout = [Decoded \<lparr>resp_JSONRPC = ''2.0'', resp_Result = ''{note}'', resp_Error = None, resp_ID = None\<rparr>,
                      Decoded \<lparr>resp_JSONRPC = ''2.0'', resp_Result = ''{old}'', resp_Error = None, resp_ID = Some 6\<rparr>,
                      Decoded \<lparr>resp_JSONRPC = ''2.0'', resp_Result = [],
                               resp_Error = Some \<lparr>rpc_code = -32001, rpc_message = ''boom''\<rparr>, resp_ID = Some 7\<rparr>,
                      Decoded \<lparr>resp_JSONRPC = ''2.0'', resp_Result = ''{late}'', resp_Error = None, resp_ID = Some 7\<rparr>],
            stdout_err = ErrorString ''EOF''\<rparr>"
      and pre = "[Decoded \<lparr>resp_JSONRPC = ''2.0'', resp_Result = ''{note}'', resp_Error = None, resp_ID = None\<rparr>,
                  Decoded \<lparr>resp_JSONRPC = ''2.0'', resp_Result = ''{old}'', resp_Error = None, resp_ID = Some 6\<rparr>]"
      and r = "\<lparr>resp_JSONRPC = ''2.0'', resp_Result = [],
                               resp_Error = Some \<lparr>rpc_code = -32001, rpc_message = ''boom''\<rparr>, resp_ID = Some 7\<rparr>"
      and post = "[Decoded \<lparr>resp_JSONRPC = ''2.0'', resp_Result = ''{late}'', resp_Error = None, resp_ID = Some 7\<rparr>]"]
  by simp

text \<open>
  C7 as stated fails: a line that does not decode as a \<^verbatim>\<open>response\<close> (here a response
  whose \<^verbatim>\<open>id\<close> is a JSON string, hence a line with a different ID) is not skipped. The
  second line is the first whose ID equals the request's ID 1 and carries the result
  \<open>{ok}\<close>, yet \<^verbatim>\<open>sendRequest\<close> returns the unmarshal error and leaves that line unread.
\<close>

theorem sendRequest_undecodable_counterexample:
  "sendRequest (\<lambda>r. Inr ''{req}'')
     \<lparr>closed = False, requestID = 0, stdin = [], stdin_err = None,
       stdout = [Undecodable (ErrorString ''json: cannot unmarshal string into Go struct field response.id of type uint64''),
                 Decoded \<lparr>resp_JSONRPC = ''2.0'', resp_Result = ''{ok}'', resp_Error = None, resp_ID = Some 1\<rparr>],
       stdout_err = ErrorString ''EOF''\<rparr> ''exec'' ()
   = (Inl (WrapError ''failed to unmarshal response: json: cannot unmarshal string into Go struct field response.id of type uint64''
             (ErrorString ''json: cannot unmarshal string into Go struct field response.id of type uint64'')),
      \<lparr>closed = False, requestID = 1, stdin = [''{req}''], stdin_err = None,
       stdout = [Decoded \<lparr>resp_JSONRPC = ''2.0'', resp_Result = ''{ok}'', resp_Error = None, resp_ID = Some 1\<rparr>],
       stdout_err = ErrorString ''EOF''\<rparr>)"
  by (simp add: sendRequest_def Errorf_def)

section \<open>Properties of the command line\<close>

lemmas demo_defs =
  world0_def flags0_def xflags0_def config0_def runRun_def runRun_started_def execCmd_def
  runExec_def Let_def nl_def Errorf_def

lemma run_demo:
  "runRun world0 flags0 [''sh'', ''-c'', ''exit 3''] =
     ([Call_Build False ''alpine:latest'',
       Stdout (''Using cached image alpine:latest'' @ nl),
       Call_New config0 \<lparr>opt_RootfsPath = ''/cache/rootfs.ext4''\<rparr>,
       Call_Start,
       Call_RelayStart ''/state/vm-1a2b3c4d/exec.sock'',
       Call_Exec ''sh -c exit 3 '' None, Stdout ''hi'', Stderr [], Call_Close],
      Exit 3)"
  by (simp add: demo_defs)



lemma exec_demo:
  "execCmd world0 xflags0 [''vm-1a2b3c4d'', ''true''] =
     ([Call_ExecViaRelay ''/state/vm-1a2b3c4d/exec.sock'' ''true '' [], Stdout ''hi'', Stderr []],
      Exit 7)"
  by (simp add: demo_defs)

lemma exec_stopped_demo:
  "execCmd world0 xflags0 [''vm-0000dead'', ''true''] =
     ([], Return (Some (ErrorString ''VM vm-0000dead is not running (status: stopped)'')))"
  by (simp add: demo_defs)

subsection \<open>Exit codes\<close>
























subsection \<open>Private-IP blocking\<close>

lemma runInteractive_no_New: "Call_New c opts \<notin> set (fst (runInteractive w cmd wd))"
  by (auto simp: runInteractive_def Let_def split: sum.splits option.splits prod.splits)

lemma runRun_started_New:
  "Call_New c opts \<in> set (fst (runRun_started w fl args cmd sb t)) \<Longrightarrow> Call_New c opts \<in> set t"
  using runInteractive_no_New [of c opts w cmd "f_workdir fl"]
  by (auto simp: runRun_started_def Let_def split: sum.splits option.splits prod.splits if_splits)

text \<open>
  C8. Whatever the flags, the arguments and the outside world (environment included):
  every configuration that \<^verbatim>\<open>runRun\<close> passes to \<^verbatim>\<open>sandbox.New\<close> has \<^verbatim>\<open>BlockPrivateIPs\<close>
  set to true.
\<close>

theorem run_blocks_private_ips:
  "Call_New c opts \<in> set (fst (runRun w fl args)) \<Longrightarrow> BlockPrivateIPs (Network c)"
  by (auto simp: runRun_def Let_def split: sum.splits option.splits if_splits
      dest!: runRun_started_New)

theorem run_blocks_private_ips_witness:
  "Call_New config0 \<lparr>opt_RootfsPath = ''/cache/rootfs.ext4''\<rparr>
     \<in> set (fst (runRun world0 flags0 [''sh'', ''-c'', ''exit 3'']))
   \<and> BlockPrivateIPs (Network config0)"
  using run_blocks_private_ips [of config0 "\<lparr>opt_RootfsPath = ''/cache/rootfs.ext4''\<rparr>"
      world0 flags0 "[''sh'', ''-c'', ''exit 3'']"]
  by (simp add: run_demo)

subsection \<open>Relaying into a running sandbox\<close>

lemma exec_refuses:
  assumes "(\<exists>st. mgr_Get w vmID = Inr st \<and> Status st \<noteq> ''running'')
           \<or> os_Stat w (ExecSocketPath w vmID) \<noteq> None"
  shows "\<exists>err. execCmd w fl (vmID # cmdArgs) = ([], Return (Some err))"
  using assms
  by (auto simp: execCmd_def runExec_def Let_def split: sum.splits option.splits)

lemma runExecInteractive_socket:
  "e \<in> set (fst (runExecInteractive w p c d)) \<Longrightarrow> relay_socket e = Some q \<Longrightarrow> q = p"
  by (auto simp: runExecInteractive_def Let_def split: sum.splits option.splits prod.splits if_splits)

lemma exec_relays_only_running:
  assumes "e \<in> set (fst (execCmd w fl args))" and "relay_socket e = Some p"
  shows "\<exists>vmID cmdArgs st. args = vmID # cmdArgs \<and> mgr_Get w vmID = Inr st
           \<and> Status st = ''running'' \<and> os_Stat w (ExecSocketPath w vmID) = None
           \<and> p = ExecSocketPath w vmID"
  using assms
  by (auto simp: execCmd_def runExec_def Let_def
      split: sum.splits option.splits list.splits if_splits dest: runExecInteractive_socket)

text \<open>
  C5. If the sandbox's stored status is not \<open>running\<close>, or its exec socket path does not
  exist, \<^verbatim>\<open>matchlock exec <id>\<close> returns an error without any event, so before any request
  is sent. And every request the command relays goes to the exec socket path of the
  sandbox named on the command line, whose stored status is \<open>running\<close> and whose socket
  exists.
\<close>

theorem exec_only_running_via_socket:
  "((\<exists>st. mgr_Get w vmID = Inr st \<and> Status st \<noteq> ''running'')
      \<or> os_Stat w (ExecSocketPath w vmID) \<noteq> None
    \<longrightarrow> (\<exists>err. execCmd w fl (vmID # cmdArgs) = ([], Return (Some err))))
   \<and> (e \<in> set (fst (execCmd w fl args)) \<and> relay_socket e = Some p
    \<longrightarrow> (\<exists>vm cmd st. args = vm # cmd \<and> mgr_Get w vm = Inr st \<and> Status st = ''running''
           \<and> os_Stat w (ExecSocketPath w vm) = None \<and> p = ExecSocketPath w vm))"
  using exec_refuses [of w vmID fl cmdArgs] exec_relays_only_running [of e w fl args p]
  by blast

theorem exec_only_running_via_socket_witness:
  "mgr_Get world0 ''vm-0000dead''
     = Inr \<lparr>ID = ''vm-0000dead'', Status = ''stopped'', vm_Image = ''alpine:latest'', PID = 0\<rparr>
   \<and> execCmd world0 xflags0 [''vm-0000dead'', ''true'']
     = ([], Return (Some (ErrorString ''VM vm-0000dead is not running (status: stopped)'')))
   \<and> Call_ExecViaRelay ''/state/vm-1a2b3c4d/exec.sock'' ''true '' []
       \<in> set (fst (execCmd world0 xflags0 [''vm-1a2b3c4d'', ''true'']))
   \<and> mgr_Get world0 ''vm-1a2b3c4d''
     = Inr \<lparr>ID = ''vm-1a2b3c4d'', Status = ''running'', vm_Image = ''alpine:latest'', PID = 4242\<rparr>
   \<and> os_Stat world0 (ExecSocketPath world0 ''vm-1a2b3c4d'') = None
   \<and> ExecSocketPath world0 ''vm-1a2b3c4d'' = ''/state/vm-1a2b3c4d/exec.sock''"
  using exec_only_running_via_socket [of world0 "''vm-0000dead''" xflags0 "[''true'']"
      "Call_ExecViaRelay ''/state/vm-1a2b3c4d/exec.sock'' ''true '' []"
      "[''vm-1a2b3c4d'', ''true'']" "''/state/vm-1a2b3c4d/exec.sock''"]
  by (simp add: exec_demo exec_stopped_demo) (simp add: world0_def)

section \<open>Properties of rm\<close>

lemma Errorf_not_found: "error_string (Errorf ''VM %s not found'' [AnyString vm]) = ''VM '' @ vm @ '' not found''"
  by (simp add: Errorf_def)

text \<open>
  C3. For every ID that has no state directory, \<^verbatim>\<open>Remove\<close> returns an error whose
  message contains the ID and leaves the base directory as it is; \<^verbatim>\<open>matchlock rm <id>\<close>
  (without \<^verbatim>\<open>--stopped\<close>) returns that error, so the process prints it and exits with 1.
\<close>

theorem rm_missing_id_fails:
  assumes "map_of dir vm = None"
  shows "\<exists>err. Remove dir vm = (dir, Some err)
           \<and> runRemove dir False (vm # rest) = (dir, [], Return (Some err))
           \<and> sublist vm (error_string err)
           \<and> main ([], Return (Some err)) = ([Stderr (error_string err @ nl)], 1)"
proof -
  let ?err = "Errorf ''VM %s not found'' [AnyString vm]"
  have "Remove dir vm = (dir, Some ?err)"
    using assms by (simp add: Remove_def)
  moreover from this have "runRemove dir False (vm # rest) = (dir, [], Return (Some ?err))"
    by (simp add: runRemove_def)
  moreover have "sublist vm (error_string ?err)"
    unfolding Errorf_not_found by (rule sublist_appendI)
  ultimately show ?thesis by simp
qed

theorem rm_missing_id_fails_witness:
  "map_of dir0 ''vm-nonexistent'' = None
   \<and> Remove dir0 ''vm-nonexistent'' = (dir0, Some (ErrorString ''VM vm-nonexistent not found''))
   \<and> runRemove dir0 False [''vm-nonexistent'']
       = (dir0, [], Return (Some (ErrorString ''VM vm-nonexistent not found'')))
   \<and> main ([], Return (Some (ErrorString ''VM vm-nonexistent not found'')))
       = ([Stderr (''VM vm-nonexistent not found'' @ nl)], 1)"
  using rm_missing_id_fails [of dir0 "''vm-nonexistent''" "[]"]
  by (simp add: dir0_def Remove_def runRemove_def Errorf_def)

text \<open>
  C4. For a sandbox whose stored status is \<open>stopped\<close>, \<^verbatim>\<open>Remove\<close> returns no error and
  deletes its state directory, and no other one; for a sandbox whose stored status is
  \<open>running\<close>, \<^verbatim>\<open>Remove\<close> returns an error and leaves the base directory unchanged. The
  command \<^verbatim>\<open>rm <id>\<close> does the same.
\<close>

theorem rm_stopped_removes_running_refuses:
  "(map_of dir vm = Some d \<and> status_file d = ''stopped''
      \<longrightarrow> snd (Remove dir vm) = None
          \<and> map_of (fst (Remove dir vm)) vm = None
          \<and> (\<forall>other. other \<noteq> vm \<longrightarrow> map_of (fst (Remove dir vm)) other = map_of dir other)
          \<and> runRemove dir False (vm # rest)
              = (fst (Remove dir vm), [Stdout (''Removed '' @ vm @ nl)], Return None))
   \<and> (map_of dir vm = Some d \<and> status_file d = ''running''
      \<longrightarrow> snd (Remove dir vm) \<noteq> None
          \<and> fst (Remove dir vm) = dir
          \<and> (\<exists>err. runRemove dir False (vm # rest) = (dir, [], Return (Some err))))"
  by (auto simp: Remove_def runRemove_def AList.delete_conv)

theorem rm_stopped_removes_running_refuses_witness:
  "map_of dir0 ''vm-test123''
     = Some \<lparr>status_file = ''stopped'', config_image = ''alpine:latest'', pid_file = 0, exec_sock = False\<rparr>
   \<and> Remove dir0 ''vm-test123''
     = ([(''vm-running1'', \<lparr>status_file = ''running'', config_image = ''alpine:latest'',
                             pid_file = 4242, exec_sock = True\<rparr>)], None)
   \<and> map_of dir0 ''vm-running1''
     = Some \<lparr>status_file = ''running'', config_image = ''alpine:latest'', pid_file = 4242, exec_sock = True\<rparr>
   \<and> Remove dir0 ''vm-running1''
     = (dir0, Some (ErrorString ''VM vm-running1 is running, kill it first''))"
  using rm_stopped_removes_running_refuses [of dir0 "''vm-test123''"
      "\<lparr>status_file = ''stopped'', config_image = ''alpine:latest'', pid_file = 0, exec_sock = False\<rparr>" "[]"]
    rm_stopped_removes_running_refuses [of dir0 "''vm-running1''"
      "\<lparr>status_file = ''running'', config_image = ''alpine:latest'', pid_file = 4242, exec_sock = True\<rparr>" "[]"]
  by (simp add: dir0_def Remove_def Errorf_def AList.delete_eq)

section \<open>Properties of extractImage\<close>

lemmas extract_defs =
  extractImage_def extractEntry_def Clean_def Join_def Dir_def clean_elem_def lies_under_def
  TypeLink_def TypeDir_def TypeReg_def TypeSymlink_def Errorf_def Let_def

text \<open>
  C10 does not hold for hard links. The entry below has the clean name \<open>pwn\<close>, which
  does not contain \<open>..\<close>, so it is not skipped; its link name \<open>../../etc/shadow\<close> is
  cleaned and joined to the destination directory but never tested for \<open>..\<close>, and the
  hard link's target path \<^verbatim>\<open>linkTarget\<close> that \<^verbatim>\<open>extractImage\<close> passes to \<^verbatim>\<open>os.Link\<close> is
  \<open>/etc/shadow\<close>, outside the destination directory.
\<close>

theorem extractImage_hardlink_target_escapes:
  "extractImage (\<lambda>call. None) ''/tmp/matchlock-extract-1''
     [(\<lparr>Typeflag = TypeLink, Name = ''pwn'', Linkname = ''../../etc/shadow'', Mode = 420,
        Uid = 0, Gid = 0\<rparr>, [])] None
   = ([MkdirAll ''/tmp/matchlock-extract-1'',
       RemoveFile ''/tmp/matchlock-extract-1/pwn'',
       Link ''/etc/shadow'' ''/tmp/matchlock-extract-1/pwn''],
      Inr [(''/pwn'', \<lparr>uid = 0, gid = 0, mode = 420\<rparr>)])
   \<and> \<not> Contains (Clean ''pwn'') ''..''
   \<and> link_source (Link ''/etc/shadow'' ''/tmp/matchlock-extract-1/pwn'') = Some ''/etc/shadow''
   \<and> \<not> lies_under ''/tmp/matchlock-extract-1'' ''/etc/shadow''"
  by (simp add: extract_defs)

subsection \<open>What does hold: the created paths\<close>

lemma Contains_sublist: "Contains s sub = sublist sub s"
  by (induction s) (auto simp: sublist_Cons_right)

lemma split_path_nonempty: "split_path s \<noteq> []"
  by (induction s) (auto split: list.splits)

lemma split_path_append: "split_path (a @ CHR ''/'' # b) = split_path a @ split_path b"
  by (induction a) (auto simp: split_path_nonempty split: list.splits)

lemma split_path_no_slash: "e \<in> set (split_path s) \<Longrightarrow> CHR ''/'' \<notin> set e"
  by (induction s arbitrary: e) (auto split: list.splits if_splits)

lemma split_path_sublist: "e \<in> set (split_path s) \<Longrightarrow> sublist e s"
proof (induction s arbitrary: e)
  case Nil
  then show ?case by simp
next
  case (Cons c s)
  show ?case
  proof (cases "c = CHR ''/''")
    case True
    with Cons show ?thesis by (auto intro: sublist_Cons_right [THEN iffD2])
  next
    case False
    obtain x xs where sp: "split_path s = x # xs"
      using split_path_nonempty [of s] by (cases "split_path s") auto
    with False Cons.prems have "e = c # x \<or> e \<in> set xs" by simp
    then show ?thesis
    proof
      assume e: "e = c # x"
      have "prefix x s" using sp
      proof (induction s arbitrary: x xs)
        case Nil then show ?case by simp
      next
        case (Cons d s)
        then show ?case by (auto split: if_splits list.splits)
      qed
      then show ?thesis by (simp add: e sublist_Cons_right)
    next
      assume "e \<in> set xs"
      then have "sublist e s" using Cons.IH sp by simp
      then show ?thesis by (simp add: sublist_Cons_right)
    qed
  qed
qed

lemma no_dotdot: "\<not> Contains s ''..'' \<Longrightarrow> ''..'' \<notin> set (split_path s)"
  using split_path_sublist [of "''..''" s] by (auto simp: Contains_sublist)


lemma clean_elem_plain:
  "list_all plain out \<Longrightarrow> CHR ''/'' \<notin> set e \<Longrightarrow> list_all plain (clean_elem True out e)"
proof -
  assume a: "list_all plain out" "CHR ''/'' \<notin> set e"
  have "list_all plain (butlast out)"
    using a(1) by (auto simp: list_all_iff dest: in_set_butlastD)
  with a show ?thesis by (auto simp: clean_elem_def plain_def)
qed

lemma foldl_clean_plain:
  "list_all plain out \<Longrightarrow> \<forall>e \<in> set es. CHR ''/'' \<notin> set e
   \<Longrightarrow> list_all plain (foldl (clean_elem True) out es)"
  by (induction es arbitrary: out) (simp_all add: clean_elem_plain)

lemma foldl_clean_no_dotdot:
  "''..'' \<notin> set es
   \<Longrightarrow> foldl (clean_elem r) out es = out @ filter (\<lambda>e. e \<noteq> [] \<and> e \<noteq> ''.'') es"
  by (induction es arbitrary: out) (auto simp: clean_elem_def)

lemma join_path_append:
  "xs \<noteq> [] \<Longrightarrow> ys \<noteq> [] \<Longrightarrow> join_path (xs @ ys) = join_path xs @ CHR ''/'' # join_path ys"
  by (induction xs rule: join_path.induct) (auto simp: neq_Nil_conv)

lemma split_path_plain: "CHR ''/'' \<notin> set x \<Longrightarrow> split_path x = [x]"
  by (induction x) auto

lemma split_join_path:
  "xs \<noteq> [] \<Longrightarrow> \<forall>x \<in> set xs. CHR ''/'' \<notin> set x \<Longrightarrow> split_path (join_path xs) = xs"
proof (induction xs rule: join_path.induct)
  case 1
  then show ?case by simp
next
  case (2 x)
  then show ?case by (simp add: split_path_plain)
next
  case (3 x y ys)
  then show ?case by (simp add: split_path_append split_path_plain)
qed

lemma kept_plain: "list_all plain (kept path)"
  unfolding kept_def by (rule foldl_clean_plain) (auto dest: split_path_no_slash)

lemma Clean_rooted: "path \<noteq> [] \<Longrightarrow> hd path = CHR ''/'' \<Longrightarrow> Clean path = CHR ''/'' # join_path (kept path)"
  by (simp add: Clean_def kept_def)

lemma kept_append:
  assumes "''..'' \<notin> set (split_path b)"
  shows "kept (a @ CHR ''/'' # b) = kept a @ filter (\<lambda>e. e \<noteq> [] \<and> e \<noteq> ''.'') (split_path b)"
  using assms by (simp add: kept_def split_path_append foldl_clean_no_dotdot)

lemma Join_rooted:
  assumes "destDir \<noteq> []" "hd destDir = CHR ''/''" "''..'' \<notin> set (split_path b)"
  shows "Join [destDir, b]
         = CHR ''/'' # join_path (kept destDir @ filter (\<lambda>e. e \<noteq> [] \<and> e \<noteq> ''.'') (split_path b))"
proof -
  have "Join [destDir, b] = Clean (destDir @ CHR ''/'' # b)"
    using assms(1) by (simp add: Join_def)
  also have "\<dots> = CHR ''/'' # join_path (kept (destDir @ CHR ''/'' # b))"
    using assms(1,2) by (intro Clean_rooted) (auto simp: hd_append)
  finally show ?thesis using assms(3) by (simp add: kept_append)
qed


lemma plain_no_slash: "list_all plain zs \<Longrightarrow> \<forall>z \<in> set zs. CHR ''/'' \<notin> set z"
  by (auto simp: list_all_iff plain_def)

lemma split_rooted_join:
  assumes "list_all plain zs" "zs \<noteq> []"
  shows "split_path (CHR ''/'' # join_path zs) = [] # zs"
proof -
  have "split_path (join_path zs) = zs"
    using split_join_path [OF assms(2)] plain_no_slash [OF assms(1)] by blast
  then show ?thesis by simp
qed

lemma kept_rooted_join:
  assumes pl: "list_all plain zs"
  shows "kept (CHR ''/'' # join_path zs) = zs"
proof (cases "zs = []")
  case True
  then show ?thesis by (simp add: kept_def clean_elem_def)
next
  case False
  have nd: "''..'' \<notin> set zs" using pl by (auto simp: list_all_iff plain_def)
  have fl: "filter (\<lambda>e. e \<noteq> [] \<and> e \<noteq> ''.'') zs = zs"
    using pl by (auto simp: list_all_iff plain_def intro: filter_True)
  have "kept (CHR ''/'' # join_path zs) = foldl (clean_elem True) [] ([] # zs)"
    unfolding kept_def split_rooted_join [OF pl False] ..
  also have "\<dots> = foldl (clean_elem True) [] zs" by (simp add: clean_elem_def)
  also have "\<dots> = zs" using foldl_clean_no_dotdot [OF nd, of True "[]"] fl by simp
  finally show ?thesis .
qed

lemma no_dotdot_rooted_join:
  assumes "list_all plain zs"
  shows "''..'' \<notin> set (split_path (CHR ''/'' # join_path zs))"
proof (cases "zs = []")
  case True
  then show ?thesis by simp
next
  case False
  have "''..'' \<notin> set zs" using assms by (auto simp: list_all_iff plain_def)
  then show ?thesis unfolding split_rooted_join [OF assms False] by simp
qed

lemma under_join:
  assumes "list_all plain xs" "list_all plain ys" "Clean dir = CHR ''/'' # join_path xs"
  shows "lies_under dir (CHR ''/'' # join_path (xs @ ys))"
proof -
  have nd: "''..'' \<notin> set (split_path (CHR ''/'' # join_path (xs @ ys)))"
    using assms(1,2) by (intro no_dotdot_rooted_join) simp
  show ?thesis
  proof (cases "ys = []")
    case True
    with nd assms(3) show ?thesis by (simp add: lies_under_def)
  next
    case ys: False
    show ?thesis
    proof (cases "xs = []")
      case True
      with nd assms(3) show ?thesis by (simp add: lies_under_def)
    next
      case False
      with ys nd assms(3) show ?thesis by (simp add: lies_under_def join_path_append)
    qed
  qed
qed

lemma upto_last_slash:
  assumes "CHR ''/'' \<notin> set x"
  shows "rev (dropWhile (\<lambda>c. c \<noteq> CHR ''/'') (rev (a @ CHR ''/'' # x))) = a @ [CHR ''/'']"
proof -
  have "dropWhile (\<lambda>c. c \<noteq> CHR ''/'') (rev x @ CHR ''/'' # rev a) = dropWhile (\<lambda>c. c \<noteq> CHR ''/'') (CHR ''/'' # rev a)"
    by (rule dropWhile_append2) (use assms in auto)
  then show ?thesis by simp
qed

lemma Dir_rooted_join:
  assumes "list_all plain zs"
  shows "Dir (CHR ''/'' # join_path zs) = CHR ''/'' # join_path (butlast zs)"
proof (cases zs rule: rev_cases)
  case Nil
  then show ?thesis by (simp add: Dir_def Clean_def clean_elem_def)
next
  case (snoc ws x)
  with assms have pw: "list_all plain ws" and px: "CHR ''/'' \<notin> set x"
    by (auto simp: plain_def)
  show ?thesis
  proof (cases "ws = []")
    case True
    with snoc px have "Dir (CHR ''/'' # join_path zs) = Clean ''/''"
      using upto_last_slash [of x "[]"] by (simp add: Dir_def)
    with True snoc show ?thesis by (simp add: Clean_def clean_elem_def)
  next
    case False
    with snoc have "CHR ''/'' # join_path zs = (CHR ''/'' # join_path ws) @ CHR ''/'' # x"
      by (simp add: join_path_append)
    with px have "Dir (CHR ''/'' # join_path zs) = Clean ((CHR ''/'' # join_path ws) @ [CHR ''/''])"
      using upto_last_slash [of x "CHR ''/'' # join_path ws"] by (simp add: Dir_def)
    also have "\<dots> = CHR ''/'' # join_path (kept ((CHR ''/'' # join_path ws) @ CHR ''/'' # []))"
      by (intro Clean_rooted) auto
    also have "kept ((CHR ''/'' # join_path ws) @ CHR ''/'' # []) = ws"
      using pw by (simp add: kept_append kept_rooted_join del: append.simps)
    finally show ?thesis using snoc by simp
  qed
qed


lemma normal_elems_plain:
  assumes "\<not> Contains b ''..''"
  shows "list_all plain (filter (\<lambda>e. e \<noteq> [] \<and> e \<noteq> ''.'') (split_path b))"
  using no_dotdot [OF assms] split_path_no_slash [of _ b]
  by (auto simp: list_all_iff plain_def)

lemma target_shape:
  assumes "destDir \<noteq> []" "hd destDir = CHR ''/''" "\<not> Contains b ''..''"
  shows "\<exists>ys. list_all plain ys \<and> Join [destDir, b] = CHR ''/'' # join_path (kept destDir @ ys)"
  using Join_rooted [OF assms(1,2) no_dotdot [OF assms(3)]] normal_elems_plain [OF assms(3)]
  by blast

lemma target_under:
  assumes "destDir \<noteq> []" "hd destDir = CHR ''/''" "\<not> Contains b ''..''"
  shows "lies_under destDir (Join [destDir, b])"
proof -
  obtain ys where ys: "list_all plain ys" "Join [destDir, b] = CHR ''/'' # join_path (kept destDir @ ys)"
    using target_shape [OF assms] by blast
  show ?thesis
    unfolding ys(2) using kept_plain ys(1) Clean_rooted [OF assms(1,2)] by (rule under_join)
qed

lemma parent_under:
  assumes "destDir \<noteq> []" "hd destDir = CHR ''/''" "\<not> Contains b ''..''"
  shows "lies_under destDir (Dir (Join [destDir, b])) \<or> Dir (Join [destDir, b]) = Dir (Clean destDir)"
proof -
  obtain ys where ys: "list_all plain ys" "Join [destDir, b] = CHR ''/'' # join_path (kept destDir @ ys)"
    using target_shape [OF assms] by blast
  have pl: "list_all plain (kept destDir @ ys)" using kept_plain ys(1) by simp
  show ?thesis
  proof (cases "ys = []")
    case True
    with ys(2) Clean_rooted [OF assms(1,2)] show ?thesis by simp
  next
    case False
    then have bl: "butlast (kept destDir @ ys) = kept destDir @ butlast ys"
      by (simp add: butlast_append)
    have "list_all plain (butlast ys)"
      using ys(1) by (auto simp: list_all_iff dest: in_set_butlastD)
    then have "lies_under destDir (CHR ''/'' # join_path (kept destDir @ butlast ys))"
      using kept_plain Clean_rooted [OF assms(1,2)] by (intro under_join)
    then show ?thesis unfolding ys(2) Dir_rooted_join [OF pl] bl by simp
  qed
qed

lemma attempt_calls: "call \<in> set (fst (attempt fails clean cs)) \<Longrightarrow> call \<in> fst ` set cs"
  by (induction cs) (auto split: option.splits prod.splits)

lemma extractEntry_skips:
  "Contains (Clean (Name hdr)) ''..'' \<Longrightarrow> extractEntry fails destDir hdr body = ([], Inr False)"
  by (simp add: extractEntry_def)

lemma extractEntry_paths:
  assumes "call \<in> set (fst (extractEntry fails destDir hdr body))"
  shows "\<not> Contains (Clean (Name hdr)) ''..''
         \<and> (created_path call = Join [destDir, Clean (Name hdr)]
            \<or> call = MkdirAll (Dir (Join [destDir, Clean (Name hdr)])))"
  using assms
  by (auto simp: extractEntry_def Let_def split: if_splits option.splits prod.splits
      dest!: attempt_calls)

lemma extractEntry_under:
  assumes "destDir \<noteq> []" "hd destDir = CHR ''/''"
    and "call \<in> set (fst (extractEntry fails destDir hdr body))"
  shows "lies_under destDir (created_path call) \<or> call = MkdirAll (Dir (Clean destDir))"
  using extractEntry_paths [OF assms(3)]
    target_under [OF assms(1,2), of "Clean (Name hdr)"]
    parent_under [OF assms(1,2), of "Clean (Name hdr)"]
  by auto

lemma extractEntries_under:
  assumes "destDir \<noteq> []" "hd destDir = CHR ''/''"
  shows "call \<in> set (fst (extractEntries fails destDir entries tail meta))
         \<Longrightarrow> lies_under destDir (created_path call) \<or> call = MkdirAll (Dir (Clean destDir))"
proof (induction entries arbitrary: meta)
  case Nil
  then show ?case by (simp split: option.splits)
next
  case (Cons entry entries)
  obtain hdr body where e: "entry = (hdr, body)" by (cases entry)
  obtain calls r where x: "extractEntry fails destDir hdr body = (calls, r)"
    by (cases "extractEntry fails destDir hdr body")
  have here: "c \<in> set calls \<Longrightarrow> lies_under destDir (created_path c) \<or> c = MkdirAll (Dir (Clean destDir))" for c
    using extractEntry_under [OF assms, of c fails hdr body] x by simp
  show ?case
  proof (cases r)
    case (Inl err)
    with Cons.prems e x here show ?thesis by simp
  next
    case (Inr recorded)
    define meta' where "meta' =
      (if recorded then
         AList.update (''/'' @ Clean (Name hdr))
           \<lparr>uid = Uid hdr, gid = Gid hdr, mode = ucast (Mode hdr) AND 511\<rparr> meta
       else meta)"
    obtain calls' r' where rest: "extractEntries fails destDir entries tail meta' = (calls', r')"
      by (cases "extractEntries fails destDir entries tail meta'")
    have "fst (extractEntries fails destDir (entry # entries) tail meta) = calls @ calls'"
      using e x Inr rest by (simp add: meta'_def)
    with Cons.prems have "call \<in> set calls \<or> call \<in> set calls'" by simp
    then show ?thesis
    proof
      assume "call \<in> set calls"
      then show ?thesis by (rule here)
    next
      assume "call \<in> set calls'"
      then show ?thesis using Cons.IH [of meta'] rest by simp
    qed
  qed
qed


text \<open>
  The part of C10 that holds, for an absolute destination directory (\<^verbatim>\<open>os.MkdirTemp\<close>
  returns one): an entry whose cleaned name contains \<open>..\<close> makes no call, and every path
  that \<^verbatim>\<open>extractImage\<close> creates, removes or writes lies under the destination directory
  as a path; the one exception is \<^verbatim>\<open>MkdirAll\<close> on the parent of the destination directory,
  for an entry whose name cleans to the directory itself. This is a statement about path
  strings: symbolic links met on the way are outside this model.
\<close>

lemma extractImage_created_paths_confined:
  assumes "destDir \<noteq> []" and "hd destDir = CHR ''/''"
    and "call \<in> set (fst (extractImage fails destDir entries tail))"
  shows "lies_under destDir (created_path call) \<or> call = MkdirAll (Dir (Clean destDir))"
  using assms(3) unfolding extractImage_def by (rule extractEntries_under [OF assms(1,2)])

section \<open>Properties of errx\<close>





end
